theory Spec2Isabelle
  imports Main "HOL-Library.Word" "HOL-Library.Sublist"
begin

section \<open>JavaScript strings\<close>

text \<open>
  A JavaScript string is a sequence of 16-bit code units. ASCII literals of the source are
  written \<open>str ''...''\<close>; the line feed is code unit 10 and the no-break space 160.
\<close>

type_synonym jschar = "16 word"
type_synonym jsstring = "jschar list"

definition str :: "string \<Rightarrow> jsstring" where
  "str s = map of_char s"

text \<open>The code units that \<open>String.prototype.trim\<close> strips (WhiteSpace and LineTerminator).\<close>

definition isWhiteSpace :: "jschar \<Rightarrow> bool" where
  "isWhiteSpace c =
     (c \<in> set [9, 10, 11, 12, 13, 32, 160, 5760, 8232, 8233, 8239, 8287, 12288, 65279]
      \<or> (8192 \<le> c \<and> c \<le> 8202))"

definition trim :: "jsstring \<Rightarrow> jsstring" where
  "trim s = rev (dropWhile isWhiteSpace (rev (dropWhile isWhiteSpace s)))"

text \<open>
  \<open>s.split(sep)\<close>: the pieces between the successive leftmost occurrences of \<open>sep\<close>;
  \<open>cur\<close> is the piece being read. An empty separator splits into code units.
\<close>

fun split_aux :: "'a list \<Rightarrow> 'a list \<Rightarrow> 'a list \<Rightarrow> 'a list list" where
  "split_aux sep cur [] = [cur]"
| "split_aux sep cur (c # cs) =
     (if prefix sep (c # cs) then cur # split_aux sep [] (drop (length sep - 1) cs)
      else split_aux sep (cur @ [c]) cs)"

definition split :: "'a list \<Rightarrow> 'a list \<Rightarrow> 'a list list" where
  "split s sep = (if sep = [] then map (\<lambda>c. [c]) s else split_aux sep [] s)"

text \<open>\<open>xs[i]\<close> for a possibly negative index: \<open>None\<close> is \<open>undefined\<close>.\<close>

definition at_index :: "'a list \<Rightarrow> int \<Rightarrow> 'a option" where
  "at_index xs i = (if 0 \<le> i \<and> i < int (length xs) then Some (xs ! nat i) else None)"

definition endsWith :: "'a list \<Rightarrow> 'a list \<Rightarrow> bool" where
  "endsWith s w = (length w \<le> length s \<and> drop (length s - length w) s = w)"

text \<open>\<open>s.includes(sub)\<close> on strings.\<close>

fun str_includes :: "'a list \<Rightarrow> 'a list \<Rightarrow> bool" where
  "str_includes [] sub = (sub = [])"
| "str_includes (c # cs) sub = (prefix sub (c # cs) \<or> str_includes cs sub)"

text \<open>\<open>s.replace(pat, rep)\<close> with a string pattern: the first occurrence only.\<close>

fun replace :: "'a list \<Rightarrow> 'a list \<Rightarrow> 'a list \<Rightarrow> 'a list" where
  "replace [] pat rep = (if pat = [] then rep else [])"
| "replace (c # cs) pat rep =
     (if prefix pat (c # cs) then rep @ drop (length pat) (c # cs)
      else c # replace cs pat rep)"

text \<open>\<open>s.replace(/\(|\)/g, "")\<close>: every parenthesis is removed.\<close>

definition replaceParens :: "jsstring \<Rightarrow> jsstring" where
  "replaceParens s = filter (\<lambda>c. c \<noteq> 40 \<and> c \<noteq> 41) s"

definition newline :: jsstring where
  "newline = [10]"

definition nbspColon :: jsstring where
  "nbspColon = [160, 58]"


section \<open>Errors\<close>

text \<open>
  What the code can throw: the \<open>TypeError\<close> of a property read on \<open>undefined\<close> or
  \<open>null\<close> (and of \<open>resolve\<close> on a non-string), the rejection of the HTTP client, carrying
  the text of \<open>response.status\<close> when there is a response, and \<open>new Error(message, {cause})\<close>.
\<close>

datatype js_error =
    TypeError
  | AxiosError "jsstring option"
  | Error jsstring "js_error option"

definition bind :: "js_error + 'a \<Rightarrow> ('a \<Rightarrow> js_error + 'b) \<Rightarrow> js_error + 'b" where
  "bind m f = (case m of Inl e \<Rightarrow> Inl e | Inr x \<Rightarrow> f x)"

text \<open>\<open>xs.forEach(callback)\<close> with the mutated accumulator passed along; a throw ends the loop.\<close>

fun forEach :: "('s \<Rightarrow> 'a \<Rightarrow> js_error + 's) \<Rightarrow> 'a list \<Rightarrow> 's \<Rightarrow> js_error + 's" where
  "forEach f [] s = Inr s"
| "forEach f (x # xs) s = bind (f s x) (forEach f xs)"


section \<open>The parsed document\<close>

text \<open>
  Nodes of the parsed tree as the code probes them: \<open>type\<close>, \<open>data\<close> (text and comment
  nodes), \<open>attribs\<close> and \<open>children\<close> (elements). \<open>Script\<close> stands for the elements whose
  \<open>type\<close> is not \<open>"tag"\<close> (script and style). Of the attributes only \<open>class\<close> and
  \<open>href\<close> are read.
\<close>

record attribs =
  class_attr :: "jsstring option"
  href :: "jsstring option"

datatype node =
    Text jsstring
  | Comment jsstring
  | Tag attribs "node list"
  | Script attribs "node list"

fun data :: "node \<Rightarrow> jsstring option" where
  "data (Text d) = Some d"
| "data (Comment d) = Some d"
| "data _ = None"

fun children :: "node \<Rightarrow> node list option" where
  "children (Tag a cs) = Some cs"
| "children (Script a cs) = Some cs"
| "children _ = None"

fun node_attribs :: "node \<Rightarrow> attribs option" where
  "node_attribs (Tag a cs) = Some a"
| "node_attribs (Script a cs) = Some a"
| "node_attribs _ = None"

text \<open>
  A node in its place among its siblings: the previous siblings (nearest first), the node,
  and the following siblings. \<open>prev\<close> and \<open>next\<close> of the tree move along them.
\<close>

datatype located = Located (before: "node list") (this: node) (after: "node list")

fun prev_sibling :: "located \<Rightarrow> located option" where
  "prev_sibling (Located [] x xs) = None"
| "prev_sibling (Located (p # ps) x xs) = Some (Located ps p (x # xs))"

fun next_sibling :: "located \<Rightarrow> located option" where
  "next_sibling (Located ps x []) = None"
| "next_sibling (Located ps x (n # ns)) = Some (Located (x # ps) n ns)"

fun locate :: "node list \<Rightarrow> node list \<Rightarrow> located list" where
  "locate ps [] = []"
| "locate ps (x # xs) = Located ps x xs # locate (x # ps) xs"

text \<open>Property reads that throw on \<open>undefined\<close>.\<close>

definition childNodes :: "node \<Rightarrow> js_error + located list" where
  "childNodes n = (case children n of None \<Rightarrow> Inl TypeError | Some cs \<Rightarrow> Inr (locate [] cs))"

text \<open>\<open>n.children[0]\<close>, followed by a property read.\<close>

definition firstChild :: "node \<Rightarrow> js_error + node" where
  "firstChild n =
     (case children n of None \<Rightarrow> Inl TypeError
      | Some [] \<Rightarrow> Inl TypeError
      | Some (c # cs) \<Rightarrow> Inr c)"

text \<open>\<open>n.data\<close>, followed by a method call.\<close>

definition stringData :: "node \<Rightarrow> js_error + jsstring" where
  "stringData n = (case data n of None \<Rightarrow> Inl TypeError | Some d \<Rightarrow> Inr d)"

text \<open>\<open>n.attribs.href\<close>, passed to \<open>resolve\<close>, which throws on a non-string.\<close>

definition hrefOf :: "node \<Rightarrow> js_error + jsstring" where
  "hrefOf n =
     (case node_attribs n of None \<Rightarrow> Inl TypeError
      | Some a \<Rightarrow> (case href a of None \<Rightarrow> Inl TypeError | Some h \<Rightarrow> Inr h))"


section \<open>The result objects\<close>

record suggestion =
  word :: jsstring
  url :: jsstring

text \<open>An absent property is \<open>None\<close>; \<open>word\<close> of a cross-reference may be \<open>undefined\<close>.\<close>

record onym =
  word :: "jsstring option"
  url :: "jsstring option"
  info :: "jsstring option"

datatype onym_type = type_synonyms | type_antonyms

record onyms =
  type :: onym_type
  list :: "onym list"

text \<open>One definition; \<open>num\<close> is \<open>null\<close> (\<open>None\<close>) or a string.\<close>

record definition_obj =
  num :: "jsstring option"
  definition_text :: jsstring
  examples :: "jsstring list"
  synonyms :: "onym list"
  antonyms :: "onym list"

record definitions =
  words :: "jsstring list list"
  gramCat :: jsstring
  origin :: jsstring
  list :: "definition_obj list"

text \<open>The values of the \<open>definitions\<close> property of a result: \<open>null\<close>, \<open>{}\<close> or an entry.\<close>

datatype definitions_value = Null | EmptyObject | Definitions definitions

record response =
  find :: bool
  word :: jsstring
  url :: jsstring
  definitions :: definitions_value
  suggestions :: "suggestion list"


section \<open>The external collaborators\<close>

text \<open>
  \<open>resolve\<close> of Node's \<open>url\<close> module on two strings, \<open>axios.get\<close> (a rejection or a
  response with its body and resolved URL) and \<open>load\<close> of cheerio, whose result answers a
  selector with the matched elements, are parameters.
\<close>

record page =
  page_data :: jsstring
  responseUrl :: jsstring

record env =
  resolve :: "jsstring \<Rightarrow> jsstring \<Rightarrow> jsstring"
  get :: "jsstring \<Rightarrow> js_error + page"
  load :: "jsstring \<Rightarrow> jsstring \<Rightarrow> node list"

definition LAROUSSE_URL :: jsstring where
  "LAROUSSE_URL = str ''https://www.larousse.fr/''"

definition DICTIONNARY_URL :: jsstring where
  "DICTIONNARY_URL = str ''https://www.larousse.fr/dictionnaires/francais/''"


section \<open>The functions of \<open>lib/utils.js\<close>\<close>

text \<open>
  \<open>getPage\<close>: the handler of a rejected request reads \<open>error.response.status\<close>, which
  throws a \<open>TypeError\<close> when the rejection carries no response.
\<close>

definition getPage :: "env \<Rightarrow> jsstring \<Rightarrow> js_error + page" where
  "getPage e w =
     (let u = resolve e DICTIONNARY_URL w in
      case get e u of
        Inr response \<Rightarrow> Inr response
      | Inl error \<Rightarrow>
          (case error of
             AxiosError (Some status) \<Rightarrow>
               Inl (Error (str ''Failed to fetch page '' @ u
                           @ str '', server responded with '' @ status) (Some error))
           | _ \<Rightarrow> Inl TypeError))"

text \<open>\<open>getWord\<close>: \<open>url.split("/")[url.split("/").length - 2]\<close>, or a throw when undefined.\<close>

definition getWord :: "jsstring \<Rightarrow> js_error + jsstring" where
  "getWord u =
     (let parts = split u (str ''/'') in
      case at_index parts (int (length parts) - 2) of
        None \<Rightarrow>
          Inl (Error (str ''Invalid argument : failed to get word from url \"'' @ u @ str ''\".'')
                 None)
      | Some w \<Rightarrow> Inr w)"

definition foundSelector :: jsstring where
  "foundSelector =
     str ''.wrapper-search > article:not(.sel) ~ .banner-title > .item-result > a''
     @ str '', .wrapper-search > section:not(.banner-title ~ section) > article:not(.sel, .sous-article) > .item-result > a''"

definition correctorSelector :: jsstring where
  "correctorSelector = str ''.corrector > ul > li > h3 > a''"

text \<open>The callback of \<open>each\<close> in \<open>getSuggestions\<close>, then \<open>getSuggestions\<close>.\<close>

definition suggestionOf :: "(jsstring \<Rightarrow> jsstring \<Rightarrow> jsstring) \<Rightarrow> suggestion list \<Rightarrow> node
    \<Rightarrow> js_error + suggestion list" where
  "suggestionOf res sugg elem =
     bind (firstChild elem) (\<lambda>c.
     bind (stringData c) (\<lambda>d.
     bind (hrefOf elem) (\<lambda>h.
       Inr (sugg @ [\<lparr>suggestion.word = trim d, suggestion.url = res LAROUSSE_URL h\<rparr>]))))"

definition getSuggestions :: "(jsstring \<Rightarrow> jsstring \<Rightarrow> jsstring) \<Rightarrow> (jsstring \<Rightarrow> node list) \<Rightarrow> bool
    \<Rightarrow> js_error + suggestion list" where
  "getSuggestions res content exist =
     (let selector = (if exist then foundSelector else correctorSelector) in
      forEach (suggestionOf res) (content selector) [])"

definition getGramCat :: "(jsstring \<Rightarrow> node list) \<Rightarrow> js_error + jsstring" where
  "getGramCat content =
     (case content (str ''.Zone-Entree1 > .CatgramDefinition'') of
        [] \<Rightarrow> Inl TypeError
      | elem # rest \<Rightarrow>
          bind (firstChild elem) (\<lambda>c. bind (stringData c) (\<lambda>d. Inr (trim d))))"

text \<open>The inner callback of \<open>getWords\<close> on one child of a header, then \<open>getWords\<close>.\<close>

fun wordsOf :: "jsstring list \<Rightarrow> node \<Rightarrow> jsstring list" where
  "wordsOf wordsCat (Text d) =
     (if \<not> str_includes d newline then wordsCat @ split (trim d) (str '', '') else wordsCat)"
| "wordsOf wordsCat child = wordsCat"

definition getWords :: "(jsstring \<Rightarrow> node list) \<Rightarrow> js_error + jsstring list list" where
  "getWords content =
     forEach (\<lambda>ws wordsCats.
        case children wordsCats of
          None \<Rightarrow> Inl TypeError
        | Some cs \<Rightarrow> Inr (ws @ [foldl wordsOf [] cs]))
       (content (str ''.Zone-Entree1 > h2'')) []"

text \<open>The callback of \<open>getOrigin\<close> on one child of the origin element, then \<open>getOrigin\<close>.\<close>

fun originOf :: "jsstring \<Rightarrow> node \<Rightarrow> js_error + jsstring" where
  "originOf orig (Text d) = Inr (orig @ replaceParens d)"
| "originOf orig (Tag a cs) =
     bind (firstChild (Tag a cs)) (\<lambda>c.
       case c of
         Tag a' cs' \<Rightarrow>
           bind (firstChild c) (\<lambda>c'. bind (stringData c') (\<lambda>d. Inr (orig @ replaceParens d)))
       | _ \<Rightarrow> bind (stringData c) (\<lambda>d. Inr (orig @ replaceParens d)))"
| "originOf orig child = Inr orig"

definition getOrigin :: "(jsstring \<Rightarrow> node list) \<Rightarrow> js_error + jsstring" where
  "getOrigin content =
     (case content (str ''.Zone-Entree1 > .OrigineDefinition'') of
        [] \<Rightarrow> Inr (trim [])
      | elem # rest \<Rightarrow>
          (case children elem of
             None \<Rightarrow> Inl TypeError
           | Some cs \<Rightarrow> bind (forEach originOf cs []) (\<lambda>orig. Inr (trim orig))))"

text \<open>
  \<open>getTextOnyms\<close>. \<open>infoOf\<close> is the nested test that sets \<open>onym.info\<close> (\<open>None\<close>
  leaves it unset): the fragment equals \<open>onymsTextList[onymsTextList.length - 1]\<close>, the
  element has a next sibling, and that sibling is a tag of class \<open>indicateurDefinition\<close>.
  \<open>textOnym\<close> is the callback on one fragment.
\<close>

definition infoOf :: "located \<Rightarrow> jsstring list \<Rightarrow> jsstring \<Rightarrow> js_error + jsstring option" where
  "infoOf onymsTextElem onymsTextList w =
     (if Some w = at_index onymsTextList (int (length onymsTextList) - 1) then
        (case next_sibling onymsTextElem of
           None \<Rightarrow> Inr None
         | Some nx \<Rightarrow>
             (case this nx of
                Tag a cs \<Rightarrow>
                  if class_attr a = Some (str ''indicateurDefinition'') then
                    bind (firstChild (this nx)) (\<lambda>c.
                    bind (stringData c) (\<lambda>d. Inr (Some (trim (replaceParens d)))))
                  else Inr None
              | _ \<Rightarrow> Inr None))
      else Inr None)"

definition textOnym :: "located \<Rightarrow> jsstring list \<Rightarrow> onym list \<Rightarrow> jsstring
    \<Rightarrow> js_error + onym list" where
  "textOnym onymsTextElem onymsTextList os w =
     (if w \<noteq> [] then
        bind (infoOf onymsTextElem onymsTextList w) (\<lambda>i.
          Inr (os @ [\<lparr>onym.word = Some (trim w), onym.url = None, onym.info = i\<rparr>]))
      else Inr os)"

definition getTextOnyms :: "located \<Rightarrow> js_error + onym list" where
  "getTextOnyms onymsTextElem =
     bind (stringData (this onymsTextElem)) (\<lambda>d.
       let onymsTextList = split d (str '' - '') in
       forEach (textOnym onymsTextElem onymsTextList) onymsTextList [])"

text \<open>
  \<open>getDefinitionOnyms\<close>. \<open>renvoisOnym\<close> is the object built for a cross-reference child,
  \<open>onymsOf\<close> the callback on one child, and \<open>labelOf\<close> the read
  \<open>onymContent.prev.prev.children[0].data\<close>, whose value may be \<open>undefined\<close>.
\<close>

definition renvoisOnym :: "(jsstring \<Rightarrow> jsstring \<Rightarrow> jsstring) \<Rightarrow> node \<Rightarrow> js_error + onym" where
  "renvoisOnym res childOnyms =
     bind (firstChild childOnyms) (\<lambda>c.
     bind (firstChild c) (\<lambda>c'.
     bind (hrefOf c) (\<lambda>h.
       Inr \<lparr>onym.word = data c', onym.url = Some (res LAROUSSE_URL h), onym.info = None\<rparr>)))"

definition onymsOf :: "(jsstring \<Rightarrow> jsstring \<Rightarrow> jsstring) \<Rightarrow> onym list \<Rightarrow> located
    \<Rightarrow> js_error + onym list" where
  "onymsOf res os childOnyms =
     (case this childOnyms of
        Text d \<Rightarrow>
          if d \<noteq> str '' - '' then bind (getTextOnyms childOnyms) (\<lambda>l. Inr (os @ l))
          else Inr os
      | Tag a cs \<Rightarrow>
          if class_attr a = Some (str ''Renvois'') then
            bind (renvoisOnym res (this childOnyms)) (\<lambda>onym. Inr (os @ [onym]))
          else Inr os
      | _ \<Rightarrow> Inr os)"

definition labelOf :: "located \<Rightarrow> js_error + jsstring option" where
  "labelOf onymContent =
     (case prev_sibling onymContent of
        None \<Rightarrow> Inl TypeError
      | Some p \<Rightarrow>
          (case prev_sibling p of
             None \<Rightarrow> Inl TypeError
           | Some pp \<Rightarrow> bind (firstChild (this pp)) (\<lambda>c. Inr (data c))))"

definition getDefinitionOnyms :: "(jsstring \<Rightarrow> jsstring \<Rightarrow> jsstring) \<Rightarrow> located \<Rightarrow> js_error + onyms" where
  "getDefinitionOnyms res onymContent =
     bind (labelOf onymContent) (\<lambda>label.
       let t = (if label \<in> set [Some (str ''Synonyme :''), Some (str ''Synonymes :'')]
                then type_synonyms else type_antonyms) in
       bind (childNodes (this onymContent)) (\<lambda>cs.
       bind (forEach (onymsOf res) cs []) (\<lambda>l.
         Inr \<lparr>type = t, onyms.list = l\<rparr>)))"

text \<open>
  \<open>getDefinition\<close>. \<open>definitionOf\<close> is the callback on one child of the definition
  container; \<open>definition[onyms.type] = onyms.list\<close> replaces the list of that type.
\<close>

definition definitionOf :: "(jsstring \<Rightarrow> jsstring \<Rightarrow> jsstring) \<Rightarrow> definition_obj \<Rightarrow> located
    \<Rightarrow> js_error + definition_obj" where
  "definitionOf res def child =
     (case this child of
        Text d \<Rightarrow>
          if \<not> str_includes d newline \<and> trim d \<noteq> [] then
            Inr (def\<lparr>definition_text := definition_text def @ d\<rparr>)
          else Inr def
      | Tag a cs \<Rightarrow>
          if class_attr a = Some (str ''numDef'') then
            bind (firstChild (this child)) (\<lambda>c.
            bind (stringData c) (\<lambda>d.
              Inr (def\<lparr>num := at_index (split (trim d) (str ''.'')) 0\<rparr>)))
          else if class_attr a = Some (str ''Renvois'') then
            bind (firstChild (this child)) (\<lambda>c.
            bind (firstChild c) (\<lambda>c'.
            bind (stringData c') (\<lambda>d.
              Inr (def\<lparr>definition_text := definition_text def @ trim d\<rparr>))))
          else if class_attr a = Some (str ''ExempleDefinition'') then
            bind (firstChild (this child)) (\<lambda>c.
            bind (stringData c) (\<lambda>d.
              Inr (def\<lparr>examples := examples def @ [trim d]\<rparr>)))
          else if class_attr a = Some (str ''Synonymes'') then
            bind (getDefinitionOnyms res child) (\<lambda>os.
              case type os of
                type_synonyms \<Rightarrow> Inr (def\<lparr>synonyms := onyms.list os\<rparr>)
              | type_antonyms \<Rightarrow> Inr (def\<lparr>antonyms := onyms.list os\<rparr>))
          else Inr def
      | _ \<Rightarrow> Inr def)"

definition getDefinition :: "(jsstring \<Rightarrow> jsstring \<Rightarrow> jsstring) \<Rightarrow> node \<Rightarrow> js_error + definition_obj" where
  "getDefinition res defContent =
     bind (childNodes defContent) (\<lambda>cs.
     bind (forEach (definitionOf res) cs
             \<lparr>num = None, definition_text = [], examples = [], synonyms = [], antonyms = []\<rparr>)
       (\<lambda>def. Inr (def\<lparr>definition_text := trim (replace (definition_text def) nbspColon [])\<rparr>)))"

definition getDefinitionsList :: "(jsstring \<Rightarrow> jsstring \<Rightarrow> jsstring) \<Rightarrow> (jsstring \<Rightarrow> node list)
    \<Rightarrow> js_error + definition_obj list" where
  "getDefinitionsList res content =
     forEach (\<lambda>l defContent. bind (getDefinition res defContent) (\<lambda>def. Inr (l @ [def])))
       (content (str ''.Definitions:first-of-type > .DivisionDefinition'')) []"

definition getDefinitions :: "(jsstring \<Rightarrow> jsstring \<Rightarrow> jsstring) \<Rightarrow> (jsstring \<Rightarrow> node list)
    \<Rightarrow> js_error + definitions" where
  "getDefinitions res content =
     bind (getWords content) (\<lambda>ws.
     bind (getGramCat content) (\<lambda>g.
     bind (getOrigin content) (\<lambda>orig.
     bind (getDefinitionsList res content) (\<lambda>l.
       Inr \<lparr>words = ws, gramCat = g, origin = orig, definitions.list = l\<rparr>))))"

text \<open>
  \<open>search\<close>. \<open>searchTry\<close> is the body of the \<open>try\<close> block; the \<open>catch\<close> block rethrows
  whatever it threw inside a new error.
\<close>

definition searchTry :: "env \<Rightarrow> jsstring \<Rightarrow> js_error + response" where
  "searchTry e w =
     bind (getPage e w) (\<lambda>p.
       let content = load e (page_data p);
           u = responseUrl p;
           fnd = (if endsWith u w then False else True) in
       bind (if fnd then getWord u else Inr w) (\<lambda>wordFind.
       bind (if fnd then bind (getDefinitions (resolve e) content) (\<lambda>ds. Inr (Definitions ds))
             else Inr EmptyObject) (\<lambda>ds.
       bind (getSuggestions (resolve e) content fnd) (\<lambda>sugg.
         Inr \<lparr>find = fnd, response.word = wordFind, response.url = u, definitions = ds,
              suggestions = sugg\<rparr>))))"

definition failureMessage :: "jsstring \<Rightarrow> jsstring" where
  "failureMessage w =
     str ''Failed to get data for word \"'' @ w
     @ str ''\" : the larousse website may be unavailable or modified.''"

definition search :: "env \<Rightarrow> jsstring \<Rightarrow> js_error + response" where
  "search e w =
     (case searchTry e w of
        Inr response \<Rightarrow> Inr response
      | Inl error \<Rightarrow> Inl (Error (failureMessage w) (Some error)))"


section \<open>Example documents\<close>

text \<open>
  Fixtures for the concrete checks below: a resolver that appends a relative reference to a
  base ending in a slash, a fetcher that answers every request with the given resolved URL,
  and a parser that answers with the given document.
\<close>

definition ex_resolve :: "jsstring \<Rightarrow> jsstring \<Rightarrow> jsstring" where
  "ex_resolve base rel = base @ rel"

definition ex_link :: "string \<Rightarrow> string \<Rightarrow> node" where
  "ex_link target label = Tag \<lparr>class_attr = None, href = Some (str target)\<rparr> [Text (str label)]"

definition ex_elem :: "string \<Rightarrow> node list \<Rightarrow> node" where
  "ex_elem c cs = Tag \<lparr>class_attr = Some (str c), href = None\<rparr> cs"

definition ex_env :: "jsstring \<Rightarrow> (jsstring \<Rightarrow> node list) \<Rightarrow> env" where
  "ex_env u content =
     \<lparr>resolve = ex_resolve,
      get = (\<lambda>requested. Inr \<lparr>page_data = [], responseUrl = u\<rparr>),
      load = (\<lambda>html. content)\<rparr>"

definition ex_corrector :: "jsstring \<Rightarrow> node list" where
  "ex_corrector selector =
     (if selector = correctorSelector
      then [ex_link ''dictionnaires/francais/dormir/26531'' '' dormir '']
      else [])"

definition ex_label :: node where
  "ex_label = ex_elem ''LibelleSynonyme'' [Text (str ''Synonymes :'')]"

definition ex_label_lowercase :: node where
  "ex_label_lowercase = ex_elem ''LibelleSynonyme'' [Text (str ''synonymes :'')]"

definition ex_renvois :: node where
  "ex_renvois = ex_elem ''Renvois'' [ex_link ''dictionnaires/francais/sommeiller/73428'' ''sommeiller'']"

definition ex_label_contraires :: node where
  "ex_label_contraires = ex_elem ''LibelleSynonyme'' [Text (str ''Contraires :'')]"

definition ex_synonymes_children :: "node list" where
  "ex_synonymes_children =
     [Text (str ''reposer - roupiller''),
      ex_elem ''indicateurDefinition'' [Text (str ''(familier)'')],
      Text (str '' - ''),
      ex_renvois]"

definition ex_synonymes_elem :: node where
  "ex_synonymes_elem = ex_elem ''Synonymes'' ex_synonymes_children"

definition ex_onymContent :: "node \<Rightarrow> located" where
  "ex_onymContent label = Located [Text (str '' ''), label] ex_synonymes_elem []"

definition ex_text_run :: located where
  "ex_text_run =
     Located [] (Text (str ''reposer - roupiller''))
       [ex_elem ''indicateurDefinition'' [Text (str ''(familier)'')]]"

definition ex_text_onyms :: "onym list" where
  "ex_text_onyms =
     [\<lparr>onym.word = Some (str ''reposer''), onym.url = None, onym.info = None\<rparr>,
      \<lparr>onym.word = Some (str ''roupiller''), onym.url = None,
       onym.info = Some (str ''familier'')\<rparr>]"

definition ex_renvois_onym :: onym where
  "ex_renvois_onym =
     \<lparr>onym.word = Some (str ''sommeiller''),
      onym.url = Some (str ''https://www.larousse.fr/dictionnaires/francais/sommeiller/73428''),
      onym.info = None\<rparr>"

definition ex_onym_list :: "onym list" where
  "ex_onym_list = ex_text_onyms @ [ex_renvois_onym]"

definition ex_division_children :: "node list" where
  "ex_division_children =
     [Text (newline @ str ''  ''),
      ex_elem ''numDef'' [Text (str ''1.'')],
      Text (str ''Etre dans le sommeil'' @ nbspColon),
      ex_elem ''ExempleDefinition'' [Text (str ''Il dort.'')],
      ex_label,
      Text (str '' ''),
      ex_synonymes_elem]"

definition ex_division :: node where
  "ex_division = ex_elem ''DivisionDefinition'' ex_division_children"

definition ex_definition :: definition_obj where
  "ex_definition =
     \<lparr>num = Some (str ''1''), definition_text = str ''Etre dans le sommeil'',
      examples = [str ''Il dort.''], synonyms = ex_onym_list, antonyms = []\<rparr>"

definition ex_dormir :: "jsstring \<Rightarrow> node list" where
  "ex_dormir selector =
     (if selector = str ''.Zone-Entree1 > h2''
        then [ex_elem ''AdresseDefinition'' [Text newline, Text (str ''dormir'')]]
      else if selector = str ''.Zone-Entree1 > .CatgramDefinition''
        then [ex_elem ''CatgramDefinition'' [Text (str '' verbe intransitif '')]]
      else if selector = str ''.Zone-Entree1 > .OrigineDefinition''
        then [ex_elem ''OrigineDefinition''
                [Text (str ''(latin ''), ex_elem ''Renvois'' [Text (str ''dormire'')],
                 Text (str '')'')]]
      else if selector = str ''.Definitions:first-of-type > .DivisionDefinition''
        then [ex_division]
      else if selector = foundSelector
        then [ex_link ''dictionnaires/francais/dormant/26529'' ''dormant'']
      else [])"


definition ex_dormir_url :: jsstring where
  "ex_dormir_url = str ''https://www.larousse.fr/dictionnaires/francais/dormir/26531''"

definition ex_dormir_entry :: definitions where
  "ex_dormir_entry =
     \<lparr>words = [[str ''dormir'']], gramCat = str ''verbe intransitif'', origin = str ''latin dormire'',
      definitions.list = [ex_definition]\<rparr>"

definition ex_dormir_result :: response where
  "ex_dormir_result =
     \<lparr>find = True, response.word = str ''dormir'', response.url = ex_dormir_url,
      definitions = Definitions ex_dormir_entry,
      suggestions =
        [\<lparr>suggestion.word = str ''dormant'',
          suggestion.url = str ''https://www.larousse.fr/dictionnaires/francais/dormant/26529''\<rparr>]\<rparr>"

definition ex_dormirr_url :: jsstring where
  "ex_dormirr_url = str ''https://www.larousse.fr/dictionnaires/francais/dormirr''"

definition ex_dormirr_result :: response where
  "ex_dormirr_result =
     \<lparr>find = False, response.word = str ''dormirr'',
      response.url = ex_dormirr_url,
      definitions = EmptyObject,
      suggestions =
        [\<lparr>suggestion.word = str ''dormir'',
          suggestion.url = str ''https://www.larousse.fr/dictionnaires/francais/dormir/26531''\<rparr>]\<rparr>"

definition ex_blank :: "jsstring \<Rightarrow> node list" where
  "ex_blank selector = []"

definition ex_suffix_result :: response where
  "ex_suffix_result =
     \<lparr>find = False, response.word = str ''31'', response.url = ex_dormir_url,
      definitions = EmptyObject, suggestions = []\<rparr>"

definition ex_offline :: env where
  "ex_offline =
     \<lparr>resolve = ex_resolve,
      get = (\<lambda>requested. Inl (AxiosError (Some (str ''404'')))),
      load = (\<lambda>html. ex_blank)\<rparr>"

definition ex_unreachable :: env where
  "ex_unreachable =
     \<lparr>resolve = ex_resolve,
      get = (\<lambda>requested. Inl (AxiosError None)),
      load = (\<lambda>html. ex_blank)\<rparr>"

definition ex_hangup :: env where
  "ex_hangup =
     \<lparr>resolve = ex_resolve,
      get = (\<lambda>requested. Inl (Error (str ''socket hang up'') None)),
      load = (\<lambda>html. ex_blank)\<rparr>"

definition ex_fetch_error :: js_error where
  "ex_fetch_error =
     Error (str ''Failed to fetch page https://www.larousse.fr/dictionnaires/francais/dormir, server responded with 404'')
       (Some (AxiosError (Some (str ''404''))))"


definition ex_repeated_run :: located where
  "ex_repeated_run =
     Located [] (Text (str ''gros - grand - gros''))
       [ex_elem ''indicateurDefinition'' [Text (str ''(familier)'')]]"

definition ex_blank_fragment_run :: located where
  "ex_blank_fragment_run = Located [] (Text (str ''beau - joli - '' @ newline)) []"

definition ex_wrapped_text :: jsstring where
  "ex_wrapped_text = str ''Etre dans le sommeil.'' @ newline"

definition ex_wrapped_division :: node where
  "ex_wrapped_division = ex_elem ''DivisionDefinition'' [Text ex_wrapped_text]"

definition ex_heading_children :: "node list" where
  "ex_heading_children =
     [Text newline, Text (str ''dormeur, dormeuse''), Text (str ''dormeur,'' @ newline @ str ''dormeuse'')]"


section \<open>The specification's wording\<close>

text \<open>The last path segment of a URL, ignoring a trailing slash, as the specification words it.\<close>

definition specLastSegment :: "jsstring \<Rightarrow> jsstring option" where
  "specLastSegment u =
     (let u' = (if endsWith u (str ''/'') then butlast u else u);
          parts = split u' (str ''/'')
      in at_index parts (int (length parts) - 1))"


section \<open>What a child node contributes\<close>

text \<open>
  The text that one child of a definition container adds to the running definition text, and
  the spellings that one child of a spelling header adds to its group.
\<close>

fun appended :: "node \<Rightarrow> jsstring" where
  "appended (Text d) = (if 10 \<in> set d \<or> trim d = [] then [] else d)"
| "appended (Tag a cs) =
     (if class_attr a = Some (str ''Renvois'') then
        (case cs of
           c # rest \<Rightarrow>
             (case children c of
                Some (c' # rest') \<Rightarrow> (case data c' of Some d \<Rightarrow> trim d | None \<Rightarrow> [])
              | _ \<Rightarrow> [])
         | [] \<Rightarrow> [])
      else [])"
| "appended n = []"

fun spelled :: "node \<Rightarrow> jsstring list" where
  "spelled (Text d) = (if 10 \<in> set d then [] else split (trim d) (str '', ''))"
| "spelled n = []"


section \<open>Basic facts\<close>

lemma bind_Inl [simp]: "bind (Inl e) f = Inl e"
  by (simp add: bind_def)

lemma bind_Inr [simp]: "bind (Inr x) f = f x"
  by (simp add: bind_def)

lemma bind_eq_Inr: "bind m f = Inr y \<longleftrightarrow> (\<exists>x. m = Inr x \<and> f x = Inr y)"
  by (cases m) simp_all

lemma endsWith_iff: "endsWith s w \<longleftrightarrow> (\<exists>pre. s = pre @ w)"
proof
  assume "endsWith s w"
  then have "s = take (length s - length w) s @ w"
    by (metis append_take_drop_id endsWith_def)
  then show "\<exists>pre. s = pre @ w" ..
next
  assume "\<exists>pre. s = pre @ w"
  then show "endsWith s w" by (auto simp: endsWith_def)
qed

text \<open>The string functions on the inputs that tell them apart.\<close>

lemma split_examples:
  "split (str ''a - - b'') (str '' - '') = [str ''a'', str ''- b'']"
  "split (str '' - beau - joli'') (str '' - '') = [[], str ''beau'', str ''joli'']"
  "split [] (str ''/'') = [[]]"
  "split (str ''a/b/'') (str ''/'') = [str ''a'', str ''b'', []]"
  "split (str ''ab'') [] = [str ''a'', str ''b'']"
  by code_simp+

lemma trim_examples:
  "trim (160 # str '' a b '' @ newline) = str ''a b''"
  "trim (str ''  '') = []"
  by code_simp+

lemma replace_examples:
  "replace (str ''a:b'' @ nbspColon @ str ''c'' @ nbspColon) nbspColon [] = str ''a:bc'' @ nbspColon"
  "replaceParens (str ''(latin (a))'') = str ''latin a''"
  by code_simp+

lemma endsWith_examples:
  "endsWith (str ''abc'') (str ''bc'')"
  "endsWith (str ''abc'') []"
  "\<not> endsWith (str ''bc'') (str ''abc'')"
  by code_simp+

lemma str_includes_examples:
  "str_includes (str ''a'' @ newline @ str ''b'') newline"
  "\<not> str_includes (str ''ab'') newline"
  "str_includes ([] :: jsstring) []"
  by code_simp+

lemma search_Inr: "search e w = Inr r \<longleftrightarrow> searchTry e w = Inr r"
  by (simp add: search_def split: sum.splits)

lemma searchTry_Inr:
  assumes "searchTry e w = Inr r" and "getPage e w = Inr p"
  shows "find r = (\<not> endsWith (responseUrl p) w)"
    and "response.url r = responseUrl p"
    and "(if find r then getWord (responseUrl p) else Inr w) = Inr (response.word r)"
    and "(if find r then bind (getDefinitions (resolve e) (load e (page_data p))) (\<lambda>ds. Inr (Definitions ds))
          else Inr EmptyObject) = Inr (definitions r)"
    and "getSuggestions (resolve e) (load e (page_data p)) (find r) = Inr (suggestions r)"
  using assms by (auto simp: searchTry_def Let_def bind_eq_Inr split: if_splits)

lemma searchTry_page: "searchTry e w = Inr r \<Longrightarrow> \<exists>p. getPage e w = Inr p"
  by (auto simp: searchTry_def bind_eq_Inr)

lemma getPage_ex_env: "getPage (ex_env u content) w = Inr \<lparr>page_data = [], responseUrl = u\<rparr>"
  by (simp add: getPage_def ex_env_def)

lemma search_ex_dormir: "search (ex_env ex_dormir_url ex_dormir) (str ''dormir'') = Inr ex_dormir_result"
  by code_simp

lemma search_ex_dormirr:
  "search (ex_env ex_dormirr_url ex_corrector) (str ''dormirr'') = Inr ex_dormirr_result"
  by code_simp

section \<open>Found or not found\<close>

text \<open>
  C1 (as amended). For every search call that returns, the result's \<open>url\<close> is the resolved URL
  and its \<open>find\<close> flag is false exactly when the resolved URL, as a string, ends with the
  requested word, and true otherwise.
\<close>

theorem search_find_iff_not_suffix:
  assumes "search e w = Inr r" and "getPage e w = Inr p"
  shows "response.url r = responseUrl p \<and> (find r \<longleftrightarrow> \<not> (\<exists>pre. responseUrl p = pre @ w))"
  using assms searchTry_Inr(1,2)[of e w r p] by (simp add: search_Inr endsWith_iff)

theorem search_find_iff_not_suffix_witness:
  "search (ex_env ex_dormir_url ex_dormir) (str ''dormir'') = Inr ex_dormir_result
   \<and> getPage (ex_env ex_dormir_url ex_dormir) (str ''dormir'')
       = Inr \<lparr>page_data = [], responseUrl = ex_dormir_url\<rparr>
   \<and> response.url ex_dormir_result = ex_dormir_url
   \<and> (find ex_dormir_result \<longleftrightarrow> \<not> (\<exists>pre. ex_dormir_url = pre @ str ''dormir''))"
  using search_find_iff_not_suffix [OF search_ex_dormir getPage_ex_env]
    search_ex_dormir getPage_ex_env [of ex_dormir_url ex_dormir "str ''dormir''"]
  by simp

text \<open>
  C1 as stated fails: the requested word \<open>31\<close> is a suffix of the resolved URL, whose last
  path segment \<open>26531\<close> differs from it, and the call is classified as not found.
\<close>

theorem search_find_last_segment_counterexample:
  "search (ex_env ex_dormir_url ex_blank) (str ''31'') = Inr ex_suffix_result
   \<and> specLastSegment (response.url ex_suffix_result) = Some (str ''26531'')
   \<and> \<not> (find ex_suffix_result \<longleftrightarrow> specLastSegment (response.url ex_suffix_result) \<noteq> Some (str ''31''))"
  by code_simp

section \<open>The canonical word\<close>

lemma getWord_Inr:
  "getWord u = Inr w' \<longleftrightarrow>
     at_index (split u (str ''/'')) (int (length (split u (str ''/''))) - 2) = Some w'"
  by (simp add: getWord_def Let_def split: option.splits)

text \<open>Splitting on a single code unit: the element before the last one.\<close>

lemma split_aux_no_sep: "c \<notin> set s \<Longrightarrow> split_aux [c] cur s = [cur @ s]"
  by (induction s arbitrary: cur) auto

lemma split_aux_at_sep:
  "c \<notin> set a \<Longrightarrow> split_aux [c] cur (a @ c # b) = (cur @ a) # split_aux [c] [] b"
  by (induction a arbitrary: cur) auto

lemma split_aux_length: "length (split_aux [c] cur s) = Suc (length (filter (\<lambda>x. x = c) s))"
  by (induction s arbitrary: cur) auto

lemma split_single_penultimate:
  assumes "at_index (split s [c]) (int (length (split s [c])) - 2) = Some w"
  shows "\<exists>pre post. s = pre @ w @ c # post \<and> c \<notin> set w \<and> c \<notin> set post
           \<and> (pre = [] \<or> last pre = c)"
  using assms
proof (induction s rule: length_induct)
  case (1 s)
  show ?case
  proof (cases "c \<in> set s")
    case False
    with "1.prems" show ?thesis
      by (simp add: split_def split_aux_no_sep at_index_def)
  next
    case True
    then obtain a b where s: "s = a @ c # b" and a: "c \<notin> set a"
      by (auto dest: split_list_first)
    have parts: "split s [c] = a # split b [c]"
      using a by (simp add: s split_def split_aux_at_sep)
    let ?n = "length (split b [c])"
    have n: "?n = Suc (length (filter (\<lambda>x. x = c) b))"
      by (simp add: split_def split_aux_length)
    show ?thesis
    proof (cases "c \<in> set b")
      case False
      then have "split b [c] = [b]" by (simp add: split_def split_aux_no_sep)
      with "1.prems" parts have "w = a" by (simp add: at_index_def)
      with s a False show ?thesis by auto
    next
      case True
      then have "filter (\<lambda>x. x = c) b \<noteq> []" by (auto simp: filter_empty_conv)
      with n have n2: "2 \<le> ?n" by (cases "filter (\<lambda>x. x = c) b") auto
      with "1.prems" parts
      have "at_index (split b [c]) (int ?n - 2) = Some w"
        by (auto simp: at_index_def nth_Cons' nat_diff_distrib numeral_2_eq_2 split: if_splits)
      moreover have "length b < length s" by (simp add: s)
      ultimately obtain pre post where
        b: "b = pre @ w @ c # post" "c \<notin> set w" "c \<notin> set post" "pre = [] \<or> last pre = c"
        using "1.IH" by blast
      from s b(1) have "s = (a @ c # pre) @ w @ c # post" by simp
      moreover from b(4) have "last (a @ c # pre) = c" by auto
      ultimately show ?thesis using b(2,3) by blast
    qed
  qed
qed

text \<open>
  C2 (as amended). For every search call that returns: when classified as found, the
  \<open>word\<close> field is the second-to-last element of the resolved URL split on \<open>/\<close>,
  whether or not the URL ends with a slash: the slash-free text that stands immediately
  before the last slash of the URL; when classified as not found, the \<open>word\<close> field is
  the originally requested word.
\<close>

theorem search_word:
  assumes "search e w = Inr r"
  shows "(find r \<longrightarrow>
            at_index (split (response.url r) (str ''/''))
              (int (length (split (response.url r) (str ''/''))) - 2) = Some (response.word r)
            \<and> (\<exists>pre post. response.url r = pre @ response.word r @ 47 # post
                  \<and> 47 \<notin> set (response.word r) \<and> 47 \<notin> set post
                  \<and> (pre = [] \<or> last pre = 47)))
         \<and> (\<not> find r \<longrightarrow> response.word r = w)"
proof -
  have slash: "str ''/'' = [47]" by (simp add: str_def)
  from assms have t: "searchTry e w = Inr r" by (simp add: search_Inr)
  then obtain p where p: "getPage e w = Inr p" using searchTry_page by blast
  note f = searchTry_Inr(2,3)[OF t p]
  show ?thesis
  proof (cases "find r")
    case True
    with f have g: "at_index (split (response.url r) (str ''/''))
              (int (length (split (response.url r) (str ''/''))) - 2) = Some (response.word r)"
      by (simp add: getWord_Inr)
    with split_single_penultimate[of "response.url r" 47 "response.word r"] True
    show ?thesis by (simp add: slash)
  next
    case False
    with f show ?thesis by simp
  qed
qed

theorem search_word_witness:
  "search (ex_env ex_dormir_url ex_dormir) (str ''dormir'') = Inr ex_dormir_result
   \<and> find ex_dormir_result
   \<and> at_index (split (response.url ex_dormir_result) (str ''/''))
       (int (length (split (response.url ex_dormir_result) (str ''/''))) - 2)
       = Some (response.word ex_dormir_result)
   \<and> search (ex_env ex_dormirr_url ex_corrector) (str ''dormirr'') = Inr ex_dormirr_result
   \<and> \<not> find ex_dormirr_result
   \<and> response.word ex_dormirr_result = str ''dormirr''"
  using search_word [OF search_ex_dormir] search_word [OF search_ex_dormirr]
    search_ex_dormir search_ex_dormirr
  by (simp add: ex_dormir_result_def ex_dormirr_result_def)

text \<open>
  C2 as stated fails on the page of \<open>dormir\<close>: the resolved URL does not end with a slash
  and its last path segment is \<open>26531\<close>, while the \<open>word\<close> field is \<open>dormir\<close>.
\<close>

theorem search_word_last_segment_counterexample:
  "search (ex_env ex_dormir_url ex_dormir) (str ''dormir'') = Inr ex_dormir_result
   \<and> find ex_dormir_result
   \<and> \<not> endsWith (response.url ex_dormir_result) (str ''/'')
   \<and> specLastSegment (response.url ex_dormir_result) = Some (str ''26531'')
   \<and> response.word ex_dormir_result = str ''dormir''
   \<and> Some (response.word ex_dormir_result) \<noteq> specLastSegment (response.url ex_dormir_result)"
  by code_simp

section \<open>Entry and suggestions\<close>

lemma forEach_suggestionOf_length:
  "forEach (suggestionOf res) xs acc = Inr l \<Longrightarrow> length l = length acc + length xs"
proof (induction xs arbitrary: acc)
  case Nil
  then show ?case by simp
next
  case (Cons x xs)
  from Cons.prems obtain acc' where s: "suggestionOf res acc x = Inr acc'"
    and r: "forEach (suggestionOf res) xs acc' = Inr l"
    by (auto simp: bind_eq_Inr)
  from s have "length acc' = Suc (length acc)"
    by (auto simp: suggestionOf_def bind_eq_Inr)
  with Cons.IH[OF r] show ?case by simp
qed

lemma getSuggestions_length:
  "getSuggestions res content exist = Inr l \<Longrightarrow>
     length l = length (content (if exist then foundSelector else correctorSelector))"
  using forEach_suggestionOf_length[of res _ "[]" l] by (simp add: getSuggestions_def)

text \<open>
  C3 (as amended). For every search call that returns, the \<open>definitions\<close> field is a
  populated entry exactly when \<open>find\<close> is true and the empty object \<open>{}\<close> exactly when it
  is false; it is never \<open>null\<close>. The suggestions are extracted on both branches, with the
  selector of the branch taken: one suggestion per element matched by the found-mode selector
  when \<open>find\<close> is true, and per element matched by the corrector selector otherwise.
\<close>

theorem search_definitions_suggestions:
  assumes "search e w = Inr r" and "getPage e w = Inr p"
  shows "(find r \<longleftrightarrow> (\<exists>ds. definitions r = Definitions ds))
         \<and> (\<not> find r \<longleftrightarrow> definitions r = EmptyObject)
         \<and> definitions r \<noteq> Null
         \<and> getSuggestions (resolve e) (load e (page_data p)) (find r) = Inr (suggestions r)
         \<and> length (suggestions r)
             = length (load e (page_data p) (if find r then foundSelector else correctorSelector))"
proof -
  from assms have t: "searchTry e w = Inr r" by (simp add: search_Inr)
  note f = searchTry_Inr(4,5)[OF t assms(2)]
  have d: "(find r \<longleftrightarrow> (\<exists>ds. definitions r = Definitions ds))
         \<and> (\<not> find r \<longleftrightarrow> definitions r = EmptyObject) \<and> definitions r \<noteq> Null"
  proof (cases "find r")
    case True
    with f(1) obtain ds where "Definitions ds = definitions r"
      by (auto simp: bind_eq_Inr)
    then have "definitions r = Definitions ds" by simp
    with True show ?thesis by simp
  next
    case False
    with f(1) have "definitions r = EmptyObject" by simp
    with False show ?thesis by simp
  qed
  with f(2) getSuggestions_length[OF f(2)] show ?thesis by blast
qed

theorem search_definitions_suggestions_witness:
  "search (ex_env ex_dormir_url ex_dormir) (str ''dormir'') = Inr ex_dormir_result
   \<and> search (ex_env ex_dormirr_url ex_corrector) (str ''dormirr'') = Inr ex_dormirr_result
   \<and> (find ex_dormir_result \<longleftrightarrow> (\<exists>ds. definitions ex_dormir_result = Definitions ds))
   \<and> definitions ex_dormir_result \<noteq> Null
   \<and> length (suggestions ex_dormir_result) = length (ex_dormir foundSelector)
   \<and> (\<not> find ex_dormirr_result \<longleftrightarrow> definitions ex_dormirr_result = EmptyObject)
   \<and> length (suggestions ex_dormirr_result) = length (ex_corrector correctorSelector)"
  using search_definitions_suggestions [OF search_ex_dormir getPage_ex_env]
    search_definitions_suggestions [OF search_ex_dormirr getPage_ex_env]
    search_ex_dormir search_ex_dormirr
  by (simp add: ex_env_def ex_dormir_result_def ex_dormirr_result_def)

text \<open>
  C3 as stated fails: the not-found result for \<open>dormirr\<close> has a non-null \<open>definitions\<close>
  field, and the suggestions are non-empty both there and in the found result for
  \<open>dormir\<close>.
\<close>

theorem search_entry_null_counterexample:
  "search (ex_env ex_dormirr_url ex_corrector) (str ''dormirr'') = Inr ex_dormirr_result
   \<and> \<not> (definitions ex_dormirr_result \<noteq> Null \<longleftrightarrow> find ex_dormirr_result)
   \<and> suggestions ex_dormirr_result \<noteq> []
   \<and> search (ex_env ex_dormir_url ex_dormir) (str ''dormir'') = Inr ex_dormir_result
   \<and> find ex_dormir_result
   \<and> suggestions ex_dormir_result \<noteq> []"
  by code_simp

section \<open>Failures\<close>

lemma search_Inl:
  "search e w = Inl x \<longleftrightarrow> (\<exists>c. searchTry e w = Inl c \<and> x = Error (failureMessage w) (Some c))"
  by (auto simp: search_def split: sum.splits)

lemma searchTry_getPage_Inl: "getPage e w = Inl c \<Longrightarrow> searchTry e w = Inl c"
  by (simp add: searchTry_def)

lemma searchTry_getWord_Inl:
  "getPage e w = Inr p \<Longrightarrow> \<not> endsWith (responseUrl p) w \<Longrightarrow> getWord (responseUrl p) = Inl c
   \<Longrightarrow> searchTry e w = Inl c"
  by (simp add: searchTry_def Let_def)

lemma searchTry_getDefinitions_Inl:
  "getPage e w = Inr p \<Longrightarrow> \<not> endsWith (responseUrl p) w \<Longrightarrow> getWord (responseUrl p) = Inr w'
   \<Longrightarrow> getDefinitions (resolve e) (load e (page_data p)) = Inl c
   \<Longrightarrow> searchTry e w = Inl c"
  by (simp add: searchTry_def Let_def)

lemma searchTry_getSuggestions_Inl:
  "getPage e w = Inr p
   \<Longrightarrow> endsWith (responseUrl p) w
       \<or> (getWord (responseUrl p) = Inr w' \<and> getDefinitions (resolve e) (load e (page_data p)) = Inr ds)
   \<Longrightarrow> getSuggestions (resolve e) (load e (page_data p)) (\<not> endsWith (responseUrl p) w) = Inl c
   \<Longrightarrow> searchTry e w = Inl c"
  by (auto simp: searchTry_def Let_def)

text \<open>
  What holds of failures: every failure of a search call is one wrapping error whose message
  embeds the requested word and whose cause is the error thrown inside the \<open>try\<close> block:
  the fetch error of \<open>getPage\<close> when the rejection has a response status, the
  \<open>TypeError\<close> of reading the status when it has none, and the error of \<open>getWord\<close>,
  \<open>getDefinitions\<close> or \<open>getSuggestions\<close> on the fetched page. No other error value
  leaves \<open>search\<close>, and a failing call returns no result.
\<close>

lemma search_failure_wrapped:
  "failureMessage w
     = str ''Failed to get data for word \"'' @ w
       @ str ''\" : the larousse website may be unavailable or modified.''
   \<and> (search e w = Inl x \<longrightarrow> (\<exists>c. x = Error (failureMessage w) (Some c)))
   \<and> (get e (resolve e DICTIONNARY_URL w) = Inl (AxiosError (Some status))
        \<longrightarrow> search e w
            = Inl (Error (failureMessage w)
                (Some (Error (str ''Failed to fetch page '' @ resolve e DICTIONNARY_URL w
                              @ str '', server responded with '' @ status)
                         (Some (AxiosError (Some status)))))))
   \<and> (get e (resolve e DICTIONNARY_URL w) = Inl err \<and> (\<forall>s. err \<noteq> AxiosError (Some s))
        \<longrightarrow> search e w = Inl (Error (failureMessage w) (Some TypeError)))
   \<and> (getPage e w = Inl c \<longrightarrow> search e w = Inl (Error (failureMessage w) (Some c)))
   \<and> (getPage e w = Inr p \<and> \<not> (\<exists>pre. responseUrl p = pre @ w) \<and> getWord (responseUrl p) = Inl c
        \<longrightarrow> search e w = Inl (Error (failureMessage w) (Some c)))
   \<and> (getPage e w = Inr p \<and> \<not> (\<exists>pre. responseUrl p = pre @ w) \<and> getWord (responseUrl p) = Inr w'
        \<and> getDefinitions (resolve e) (load e (page_data p)) = Inl c
        \<longrightarrow> search e w = Inl (Error (failureMessage w) (Some c)))
   \<and> (getPage e w = Inr p
        \<and> ((\<exists>pre. responseUrl p = pre @ w)
            \<or> (getWord (responseUrl p) = Inr w'
                \<and> getDefinitions (resolve e) (load e (page_data p)) = Inr ds))
        \<and> getSuggestions (resolve e) (load e (page_data p)) (\<not> (\<exists>pre. responseUrl p = pre @ w)) = Inl c
        \<longrightarrow> search e w = Inl (Error (failureMessage w) (Some c)))"
proof (intro conjI impI)
  show "failureMessage w
     = str ''Failed to get data for word \"'' @ w
       @ str ''\" : the larousse website may be unavailable or modified.''"
    by (simp add: failureMessage_def)
next
  assume "search e w = Inl x"
  then show "\<exists>c. x = Error (failureMessage w) (Some c)"
    by (auto simp: search_Inl)
next
  assume "get e (resolve e DICTIONNARY_URL w) = Inl (AxiosError (Some status))"
  then have "getPage e w
      = Inl (Error (str ''Failed to fetch page '' @ resolve e DICTIONNARY_URL w
                    @ str '', server responded with '' @ status)
               (Some (AxiosError (Some status))))"
    by (simp add: getPage_def Let_def)
  then have "searchTry e w
      = Inl (Error (str ''Failed to fetch page '' @ resolve e DICTIONNARY_URL w
                    @ str '', server responded with '' @ status)
               (Some (AxiosError (Some status))))"
    by (rule searchTry_getPage_Inl)
  then show "search e w
            = Inl (Error (failureMessage w)
                (Some (Error (str ''Failed to fetch page '' @ resolve e DICTIONNARY_URL w
                              @ str '', server responded with '' @ status)
                         (Some (AxiosError (Some status))))))"
    by (simp add: search_Inl)
next
  assume "get e (resolve e DICTIONNARY_URL w) = Inl err \<and> (\<forall>s. err \<noteq> AxiosError (Some s))"
  then have "getPage e w = Inl TypeError"
    by (auto simp: getPage_def Let_def split: js_error.splits option.splits)
  then have "searchTry e w = Inl TypeError" by (rule searchTry_getPage_Inl)
  then show "search e w = Inl (Error (failureMessage w) (Some TypeError))"
    by (simp add: search_Inl)
next
  assume "getPage e w = Inl c"
  then have "searchTry e w = Inl c" by (rule searchTry_getPage_Inl)
  then show "search e w = Inl (Error (failureMessage w) (Some c))"
    by (simp add: search_Inl)
next
  assume "getPage e w = Inr p \<and> \<not> (\<exists>pre. responseUrl p = pre @ w) \<and> getWord (responseUrl p) = Inl c"
  then have "searchTry e w = Inl c"
    using searchTry_getWord_Inl[of e w p c] by (simp add: endsWith_iff)
  then show "search e w = Inl (Error (failureMessage w) (Some c))"
    by (simp add: search_Inl)
next
  assume "getPage e w = Inr p \<and> \<not> (\<exists>pre. responseUrl p = pre @ w) \<and> getWord (responseUrl p) = Inr w'
        \<and> getDefinitions (resolve e) (load e (page_data p)) = Inl c"
  then have "searchTry e w = Inl c"
    using searchTry_getDefinitions_Inl[of e w p w' c] by (simp add: endsWith_iff)
  then show "search e w = Inl (Error (failureMessage w) (Some c))"
    by (simp add: search_Inl)
next
  assume "getPage e w = Inr p
        \<and> ((\<exists>pre. responseUrl p = pre @ w)
            \<or> (getWord (responseUrl p) = Inr w'
                \<and> getDefinitions (resolve e) (load e (page_data p)) = Inr ds))
        \<and> getSuggestions (resolve e) (load e (page_data p)) (\<not> (\<exists>pre. responseUrl p = pre @ w)) = Inl c"
  then have "searchTry e w = Inl c"
    using searchTry_getSuggestions_Inl[of e w p w' ds c] by (simp add: endsWith_iff)
  then show "search e w = Inl (Error (failureMessage w) (Some c))"
    by (simp add: search_Inl)
qed

lemma getDefinitions_ex_blank: "getDefinitions ex_resolve ex_blank = Inl TypeError"
  by code_simp

lemma getWord_ex_dormir_url: "getWord ex_dormir_url = Inr (str ''dormir'')"
  by code_simp

lemma ex_dormir_url_no_suffix: "\<not> (\<exists>pre. ex_dormir_url = pre @ str ''dormir'')"
proof -
  have "\<not> endsWith ex_dormir_url (str ''dormir'')" by code_simp
  then show ?thesis by (simp add: endsWith_iff)
qed

lemma getPage_ex_offline: "getPage ex_offline (str ''dormir'') = Inl ex_fetch_error"
  by code_simp

lemma search_failure_wrapped_examples:
  "(getPage ex_offline (str ''dormir'') = Inl ex_fetch_error
    \<and> getDefinitions ex_resolve ex_blank = Inl TypeError)
   \<and> search ex_offline (str ''dormir'')
     = Inl (Error (failureMessage (str ''dormir'')) (Some ex_fetch_error))
   \<and> search (ex_env ex_dormir_url ex_blank) (str ''dormir'')
     = Inl (Error (failureMessage (str ''dormir'')) (Some TypeError))"
proof (intro conjI)
  show "getPage ex_offline (str ''dormir'') = Inl ex_fetch_error"
    by (rule getPage_ex_offline)
next
  show "getDefinitions ex_resolve ex_blank = Inl TypeError"
    by (rule getDefinitions_ex_blank)
next
  note fetch = search_failure_wrapped
    [where e = ex_offline and w = "str ''dormir''" and c = ex_fetch_error]
  from fetch getPage_ex_offline
  show "search ex_offline (str ''dormir'')
     = Inl (Error (failureMessage (str ''dormir'')) (Some ex_fetch_error))"
    by blast
next
  let ?e = "ex_env ex_dormir_url ex_blank"
  let ?p = "\<lparr>page_data = [], responseUrl = ex_dormir_url\<rparr>"
  note extraction = search_failure_wrapped
    [where e = ?e and w = "str ''dormir''" and c = TypeError and p = ?p and w' = "str ''dormir''"]
  have p: "getPage ?e (str ''dormir'') = Inr ?p" by (rule getPage_ex_env)
  have u: "\<not> (\<exists>pre. responseUrl ?p = pre @ str ''dormir'')"
    using ex_dormir_url_no_suffix by simp
  have g: "getWord (responseUrl ?p) = Inr (str ''dormir'')"
    using getWord_ex_dormir_url by simp
  have d: "getDefinitions (resolve ?e) (load ?e (page_data ?p)) = Inl TypeError"
    using getDefinitions_ex_blank by (simp add: ex_env_def)
  from extraction p u g d
  show "search ?e (str ''dormir'') = Inl (Error (failureMessage (str ''dormir'')) (Some TypeError))"
    by blast
qed

text \<open>
  C8 (every failure of the fetch or of an extraction step is thrown as one wrapping error
  that carries the requested word and the underlying cause) fails on a fetch rejected without
  a response: the handler of \<open>getPage\<close> reads \<open>error.response.status\<close> before it builds
  its error, so a \<open>TypeError\<close> is thrown in its place and becomes the cause. Two different
  rejections give the same wrapping error, and neither is carried.
\<close>

theorem search_fetch_cause_lost:
  "get ex_unreachable (resolve ex_unreachable DICTIONNARY_URL (str ''dormir''))
     = Inl (AxiosError None)
   \<and> get ex_hangup (resolve ex_hangup DICTIONNARY_URL (str ''dormir''))
     = Inl (Error (str ''socket hang up'') None)
   \<and> search ex_unreachable (str ''dormir'')
     = Inl (Error (failureMessage (str ''dormir'')) (Some TypeError))
   \<and> search ex_hangup (str ''dormir'')
     = Inl (Error (failureMessage (str ''dormir'')) (Some TypeError))"
  by code_simp


section \<open>Loops\<close>

lemma forEach_invariant:
  assumes "forEach f xs s = Inr s'" and "P s"
    and "\<And>a x b. P a \<Longrightarrow> x \<in> set xs \<Longrightarrow> f a x = Inr b \<Longrightarrow> P b"
  shows "P s'"
  using assms
proof (induction xs arbitrary: s)
  case Nil
  then show ?case by simp
next
  case (Cons x xs)
  from Cons.prems(1) obtain s1 where s1: "f s x = Inr s1" and r: "forEach f xs s1 = Inr s'"
    by (auto simp: bind_eq_Inr)
  have "P s1" using Cons.prems(2) _ s1 by (rule Cons.prems(3)) simp
  with r Cons.prems(3) show ?case by (intro Cons.IH) auto
qed

section \<open>Synonyms or antonyms\<close>

lemma labelOf_Inr:
  assumes "labelOf oc = Inr label"
  shows "\<exists>p lab ps c cs. before oc = p # lab # ps \<and> children lab = Some (c # cs) \<and> label = data c"
proof -
  obtain bs n ns where oc: "oc = Located bs n ns" by (cases oc)
  show ?thesis
  proof (cases bs)
    case Nil
    with assms oc show ?thesis by (simp add: labelOf_def)
  next
    case (Cons p bs')
    show ?thesis
    proof (cases bs')
      case Nil
      with assms oc Cons show ?thesis by (simp add: labelOf_def)
    next
      case (Cons lab ps)
      with assms oc \<open>bs = p # bs'\<close> have "bind (firstChild lab) (\<lambda>c. Inr (data c)) = Inr label"
        by (simp add: labelOf_def)
      then obtain c where "firstChild lab = Inr c" and "label = data c"
        by (auto simp: bind_eq_Inr)
      then obtain cs where "children lab = Some (c # cs)"
        by (auto simp: firstChild_def split: option.splits list.splits)
      with oc Cons \<open>bs = p # bs'\<close> \<open>label = data c\<close> show ?thesis by simp
    qed
  qed
qed

lemma getDefinitionOnyms_Inr:
  assumes "getDefinitionOnyms res oc = Inr os"
  shows "\<exists>label cs. labelOf oc = Inr label
           \<and> type os = (if label = Some (str ''Synonyme :'') \<or> label = Some (str ''Synonymes :'')
                        then type_synonyms else type_antonyms)
           \<and> childNodes (this oc) = Inr cs
           \<and> forEach (onymsOf res) cs [] = Inr (onyms.list os)"
proof -
  let ?t = "\<lambda>label. if label \<in> set [Some (str ''Synonyme :''), Some (str ''Synonymes :'')]
                then type_synonyms else type_antonyms"
  from assms obtain label where l: "labelOf oc = Inr label"
    and 1: "bind (childNodes (this oc)) (\<lambda>cs. bind (forEach (onymsOf res) cs [])
              (\<lambda>l. Inr \<lparr>type = ?t label, onyms.list = l\<rparr>)) = Inr os"
    unfolding getDefinitionOnyms_def Let_def bind_eq_Inr by blast
  from 1 obtain cs where c: "childNodes (this oc) = Inr cs"
    and 2: "bind (forEach (onymsOf res) cs [])
              (\<lambda>l. Inr \<lparr>type = ?t label, onyms.list = l\<rparr>) = Inr os"
    unfolding bind_eq_Inr by blast
  from 2 obtain l where f: "forEach (onymsOf res) cs [] = Inr l"
    and 3: "Inr \<lparr>type = ?t label, onyms.list = l\<rparr> = (Inr os :: js_error + onyms)"
    unfolding bind_eq_Inr by blast
  from 3 have 4: "os = \<lparr>type = ?t label, onyms.list = l\<rparr>" by simp
  from 4 have "onyms.list os = l" by simp
  moreover from 4 have "type os = (if label = Some (str ''Synonyme :'') \<or> label = Some (str ''Synonymes :'')
                        then type_synonyms else type_antonyms)"
    by (simp only: onyms.simps list.set insert_iff empty_iff simp_thms)
  ultimately show ?thesis using l c f by blast
qed

lemma labelOf_label:
  assumes "before oc = p # lab # ps" and "children lab = Some (c # cs)"
  shows "labelOf oc = Inr (data c)"
proof -
  obtain bs n ns where oc: "oc = Located bs n ns" by (cases oc)
  with assms(1) have "oc = Located (p # lab # ps) n ns" by simp
  with assms(2) show ?thesis by (simp add: labelOf_def firstChild_def)
qed

lemma getDefinitionOnyms_returns:
  assumes "before oc = p # lab # ps" and "children lab = Some (c # cs)"
    and "children (this oc) = Some ks"
    and "forEach (onymsOf res) (locate [] ks) [] = Inr l"
  shows "getDefinitionOnyms res oc
         = Inr \<lparr>type = (if data c = Some (str ''Synonyme :'') \<or> data c = Some (str ''Synonymes :'')
                          then type_synonyms else type_antonyms),
                 onyms.list = l\<rparr>"
proof -
  have 1: "labelOf oc = Inr (data c)" using assms(1,2) by (rule labelOf_label)
  have 2: "childNodes (this oc) = Inr (locate [] ks)" using assms(3) by (simp add: childNodes_def)
  show ?thesis
    unfolding getDefinitionOnyms_def Let_def 1 2 assms(4) bind_Inr
    by (simp only: list.set insert_iff empty_iff simp_thms)
qed

lemma getDefinitionOnyms_returned:
  assumes "getDefinitionOnyms res oc = Inr os"
  shows "\<exists>p lab ps c cs. before oc = p # lab # ps \<and> children lab = Some (c # cs)
           \<and> (type os = type_synonyms
                \<longleftrightarrow> data c = Some (str ''Synonyme :'') \<or> data c = Some (str ''Synonymes :''))
           \<and> (type os = type_antonyms
                \<longleftrightarrow> data c \<noteq> Some (str ''Synonyme :'') \<and> data c \<noteq> Some (str ''Synonymes :''))"
proof -
  from getDefinitionOnyms_Inr[OF assms] obtain label where l: "labelOf oc = Inr label"
    and t: "type os = (if label = Some (str ''Synonyme :'') \<or> label = Some (str ''Synonymes :'')
                        then type_synonyms else type_antonyms)"
    by blast
  from labelOf_Inr[OF l] obtain p lab ps c cs where
    s: "before oc = p # lab # ps" "children lab = Some (c # cs)" "label = data c"
    by blast
  from t s(3) have "(type os = type_synonyms
                \<longleftrightarrow> data c = Some (str ''Synonyme :'') \<or> data c = Some (str ''Synonymes :''))
           \<and> (type os = type_antonyms
                \<longleftrightarrow> data c \<noteq> Some (str ''Synonyme :'') \<and> data c \<noteq> Some (str ''Synonymes :''))"
    by (cases "data c = Some (str ''Synonyme :'') \<or> data c = Some (str ''Synonymes :'')") auto
  with s(1,2) show ?thesis by blast
qed


lemma getDefinitionOnyms_ex_label:
  "getDefinitionOnyms ex_resolve (ex_onymContent ex_label)
     = Inr \<lparr>type = type_synonyms, onyms.list = ex_onym_list\<rparr>"
  by code_simp

lemma getDefinitionOnyms_ex_label_lowercase:
  "getDefinitionOnyms ex_resolve (ex_onymContent ex_label_lowercase)
     = Inr \<lparr>type = type_antonyms, onyms.list = ex_onym_list\<rparr>"
  by code_simp

lemma onymsOf_ex_synonymes_children:
  "forEach (onymsOf ex_resolve) (locate [] ex_synonymes_children) [] = Inr ex_onym_list"
  by code_simp


section \<open>The fields of an onym\<close>

lemma textOnym_url:
  "textOnym t ws os w = Inr os' \<Longrightarrow> \<forall>y\<in>set os. onym.url y = None \<Longrightarrow> \<forall>y\<in>set os'. onym.url y = None"
  by (auto simp: textOnym_def bind_eq_Inr split: if_splits)

lemma getTextOnyms_url:
  assumes "getTextOnyms t = Inr l"
  shows "\<forall>y\<in>set l. onym.url y = None"
proof -
  from assms obtain d where
    f: "forEach (textOnym t (split d (str '' - ''))) (split d (str '' - '')) [] = Inr l"
    by (auto simp: getTextOnyms_def Let_def bind_eq_Inr)
  show ?thesis
    by (rule forEach_invariant[OF f, where P = "\<lambda>os. \<forall>y\<in>set os. onym.url y = None"])
       (simp_all add: textOnym_url)
qed

lemma renvoisOnym_info:
  "renvoisOnym res n = Inr o' \<Longrightarrow> onym.info o' = None \<and> onym.url o' \<noteq> None"
  by (auto simp: renvoisOnym_def bind_eq_Inr)

lemma onymsOf_url_info:
  assumes "onymsOf res os c = Inr os'"
    and "\<forall>y\<in>set os. onym.url y = None \<or> onym.info y = None"
  shows "\<forall>y\<in>set os'. onym.url y = None \<or> onym.info y = None"
proof (cases "this c")
  case (Text d)
  show ?thesis
  proof (cases "d = str '' - ''")
    case True
    with assms Text show ?thesis by (simp add: onymsOf_def)
  next
    case False
    with assms(1) Text obtain l where "getTextOnyms c = Inr l" and "os' = os @ l"
      by (auto simp: onymsOf_def bind_eq_Inr)
    with getTextOnyms_url[of c l] assms(2) show ?thesis by auto
  qed
next
  case (Comment d)
  with assms show ?thesis by (simp add: onymsOf_def)
next
  case (Tag a cs)
  show ?thesis
  proof (cases "class_attr a = Some (str ''Renvois'')")
    case True
    with assms(1) Tag obtain o' where "renvoisOnym res (this c) = Inr o'" and "os' = os @ [o']"
      by (auto simp: onymsOf_def bind_eq_Inr)
    with renvoisOnym_info[of res "this c" o'] assms(2) show ?thesis by auto
  next
    case False
    with assms Tag show ?thesis by (simp add: onymsOf_def)
  qed
next
  case (Script a cs)
  with assms show ?thesis by (simp add: onymsOf_def)
qed

text \<open>
  C10. Every onym produced from a plain-text run has no \<open>url\<close>; the onym produced from a
  cross-reference element has a \<open>url\<close> and no \<open>info\<close>; so no onym of a classified list
  carries both a \<open>url\<close> and an \<open>info\<close>.
\<close>

theorem onym_url_info_exclusive:
  "(getTextOnyms t = Inr l \<longrightarrow> (\<forall>y\<in>set l. onym.url y = None))
   \<and> (renvoisOnym res n = Inr o' \<longrightarrow> onym.info o' = None \<and> onym.url o' \<noteq> None)
   \<and> (getDefinitionOnyms res oc = Inr os
        \<longrightarrow> (\<forall>y\<in>set (onyms.list os). onym.url y = None \<or> onym.info y = None))"
proof -
  have a: "getTextOnyms t = Inr l \<longrightarrow> (\<forall>y\<in>set l. onym.url y = None)"
    using getTextOnyms_url by blast
  have b: "renvoisOnym res n = Inr o' \<longrightarrow> onym.info o' = None \<and> onym.url o' \<noteq> None"
    using renvoisOnym_info by blast
  have c: "getDefinitionOnyms res oc = Inr os
        \<longrightarrow> (\<forall>y\<in>set (onyms.list os). onym.url y = None \<or> onym.info y = None)"
  proof
    assume "getDefinitionOnyms res oc = Inr os"
    from getDefinitionOnyms_Inr[OF this] obtain cs where
      f: "forEach (onymsOf res) cs [] = Inr (onyms.list os)" by blast
    show "\<forall>y\<in>set (onyms.list os). onym.url y = None \<or> onym.info y = None"
      by (rule forEach_invariant[OF f,
            where P = "\<lambda>os. \<forall>y\<in>set os. onym.url y = None \<or> onym.info y = None"])
         (simp_all add: onymsOf_url_info)
  qed
  from a b c show ?thesis by (intro conjI)
qed

lemma getTextOnyms_ex_text_run: "getTextOnyms ex_text_run = Inr ex_text_onyms"
  by code_simp

lemma renvoisOnym_ex_renvois: "renvoisOnym ex_resolve ex_renvois = Inr ex_renvois_onym"
  by code_simp

theorem onym_url_info_exclusive_witness:
  "getTextOnyms ex_text_run = Inr ex_text_onyms
   \<and> renvoisOnym ex_resolve ex_renvois = Inr ex_renvois_onym
   \<and> getDefinitionOnyms ex_resolve (ex_onymContent ex_label)
       = Inr \<lparr>type = type_synonyms, onyms.list = ex_onym_list\<rparr>
   \<and> list_all (\<lambda>y. onym.url y = None) ex_text_onyms
   \<and> onym.info ex_renvois_onym = None \<and> onym.url ex_renvois_onym \<noteq> None
   \<and> list_all (\<lambda>y. onym.url y = None \<or> onym.info y = None) ex_onym_list"
  using onym_url_info_exclusive [where t = ex_text_run and l = ex_text_onyms
      and res = ex_resolve and n = ex_renvois and o' = ex_renvois_onym
      and oc = "ex_onymContent ex_label"
      and os = "\<lparr>type = type_synonyms, onyms.list = ex_onym_list\<rparr>"]
    getTextOnyms_ex_text_run renvoisOnym_ex_renvois getDefinitionOnyms_ex_label
  by (simp add: list_all_iff)

section \<open>Annotations of a plain-text run\<close>

text \<open>
  What holds of \<open>info\<close>: an onym of a plain-text run carries one only if the next sibling
  of the run is an annotation marker and its word is the trimmed text of a fragment equal,
  as a string, to the last fragment of the run.
\<close>

lemma infoOf_Some:
  assumes "infoOf t ws w = Inr (Some i)"
  shows "at_index ws (int (length ws) - 1) = Some w
         \<and> (\<exists>nx a cs. next_sibling t = Some nx \<and> this nx = Tag a cs
               \<and> class_attr a = Some (str ''indicateurDefinition''))"
proof -
  from assms have l: "Some w = at_index ws (int (length ws) - 1)"
    by (auto simp: infoOf_def split: if_splits)
  with assms obtain nx where nx: "next_sibling t = Some nx"
    by (auto simp: infoOf_def split: option.splits)
  with assms l obtain a cs where "this nx = Tag a cs"
    by (auto simp: infoOf_def split: node.splits)
  moreover with assms l nx have "class_attr a = Some (str ''indicateurDefinition'')"
    by (auto simp: infoOf_def split: if_splits)
  ultimately show ?thesis using l nx by simp
qed

lemma getTextOnyms_info:
  assumes "getTextOnyms t = Inr l" and "y \<in> set l" and "onym.info y \<noteq> None"
  shows "(\<exists>nx a cs. next_sibling t = Some nx \<and> this nx = Tag a cs
               \<and> class_attr a = Some (str ''indicateurDefinition''))
         \<and> (\<exists>d w. data (this t) = Some d
               \<and> at_index (split d (str '' - '')) (int (length (split d (str '' - ''))) - 1) = Some w
               \<and> onym.word y = Some (trim w))"
proof -
  from assms(1) obtain d where d: "data (this t) = Some d"
    and f: "forEach (textOnym t (split d (str '' - ''))) (split d (str '' - '')) [] = Inr l"
    by (auto simp: getTextOnyms_def stringData_def Let_def bind_eq_Inr split: option.splits)
  let ?ws = "split d (str '' - '')"
  let ?Q = "\<lambda>y. onym.info y \<noteq> None \<longrightarrow>
     (\<exists>nx a cs. next_sibling t = Some nx \<and> this nx = Tag a cs
               \<and> class_attr a = Some (str ''indicateurDefinition''))
     \<and> (\<exists>w. at_index ?ws (int (length ?ws) - 1) = Some w \<and> onym.word y = Some (trim w))"
  have "\<forall>y\<in>set l. ?Q y"
  proof (rule forEach_invariant[OF f, where P = "\<lambda>os. \<forall>y\<in>set os. ?Q y"])
    show "\<forall>y\<in>set []. ?Q y" by simp
  next
    fix a x b
    assume a: "\<forall>y\<in>set a. ?Q y" and s: "textOnym t ?ws a x = Inr b"
    show "\<forall>y\<in>set b. ?Q y"
    proof (cases "x = []")
      case True
      with s a show ?thesis by (simp add: textOnym_def)
    next
      case False
      with s obtain i where i: "infoOf t ?ws x = Inr i"
        and b: "b = a @ [\<lparr>onym.word = Some (trim x), onym.url = None, onym.info = i\<rparr>]"
        by (auto simp: textOnym_def bind_eq_Inr)
      have "?Q \<lparr>onym.word = Some (trim x), onym.url = None, onym.info = i\<rparr>"
      proof (cases i)
        case None
        then show ?thesis by simp
      next
        case (Some j)
        with i infoOf_Some[of t ?ws x j] show ?thesis by simp
      qed
      with a b show ?thesis by simp
    qed
  qed
  with assms(2,3) d show ?thesis by blast
qed

text \<open>
  C5 (an onym of a plain-text run carries an \<open>info\<close> only if its word was the last fragment
  of the run and the next sibling is an annotation marker; no earlier fragment receives one)
  fails on the run \<open>gros - grand - gros\<close> followed by the marker \<open>(familier)\<close>: the code
  compares each fragment with the last one by value, so the first fragment, equal to the
  last, receives the annotation too.
\<close>

theorem getTextOnyms_repeated_fragment:
  "getTextOnyms ex_repeated_run
   = Inr [\<lparr>onym.word = Some (str ''gros''), onym.url = None, onym.info = Some (str ''familier'')\<rparr>,
          \<lparr>onym.word = Some (str ''grand''), onym.url = None, onym.info = None\<rparr>,
          \<lparr>onym.word = Some (str ''gros''), onym.url = None, onym.info = Some (str ''familier'')\<rparr>]"
  by code_simp

section \<open>Words of a plain-text run\<close>

text \<open>
  What holds of the words: they are the trimmed non-empty fragments, in the order of the run.
\<close>

lemma forEach_textOnym_words:
  "forEach (textOnym t ws) xs acc = Inr l \<Longrightarrow>
     map onym.word l = map onym.word acc @ map (\<lambda>w. Some (trim w)) (filter (\<lambda>w. w \<noteq> []) xs)"
proof (induction xs arbitrary: acc)
  case Nil
  then show ?case by simp
next
  case (Cons x xs)
  from Cons.prems obtain acc' where s: "textOnym t ws acc x = Inr acc'"
    and r: "forEach (textOnym t ws) xs acc' = Inr l"
    by (auto simp: bind_eq_Inr)
  from s have "map onym.word acc' = map onym.word acc @ (if x \<noteq> [] then [Some (trim x)] else [])"
    by (auto simp: textOnym_def bind_eq_Inr split: if_splits)
  with Cons.IH[OF r] show ?case by simp
qed

lemma getTextOnyms_words:
  assumes "getTextOnyms t = Inr l" and "data (this t) = Some d"
  shows "map onym.word l
         = map (\<lambda>w. Some (trim w)) (filter (\<lambda>w. w \<noteq> []) (split d (str '' - '')))"
proof -
  from assms have "forEach (textOnym t (split d (str '' - ''))) (split d (str '' - '')) [] = Inr l"
    by (simp add: getTextOnyms_def stringData_def Let_def)
  from forEach_textOnym_words[OF this] show ?thesis by simp
qed

text \<open>
  C6 (the list of a plain-text run never contains an entry whose word is the empty string,
  and keeps the order of the fragments) fails on the run \<open>beau - joli - \<close> followed by a
  line feed: the last fragment is a line feed, which is not the empty string, and its trimmed
  text is; the list ends with an onym whose word is the empty string.
\<close>

theorem getTextOnyms_blank_fragment:
  "getTextOnyms ex_blank_fragment_run
   = Inr [\<lparr>onym.word = Some (str ''beau''), onym.url = None, onym.info = None\<rparr>,
          \<lparr>onym.word = Some (str ''joli''), onym.url = None, onym.info = None\<rparr>,
          \<lparr>onym.word = Some [], onym.url = None, onym.info = None\<rparr>]"
  by code_simp

section \<open>The number of a definition\<close>

text \<open>
  What holds of \<open>num\<close>: it is the trimmed text of the marker up to its first full stop,
  kept as a string.
\<close>

lemma split_aux_single:
  "\<exists>rest. split_aux [c] cur s = (cur @ takeWhile (\<lambda>x. x \<noteq> c) s) # rest"
proof (induction s arbitrary: cur)
  case Nil
  then show ?case by simp
next
  case (Cons a s)
  show ?case
  proof (cases "a = c")
    case True
    then show ?thesis by simp
  next
    case False
    from Cons[of "cur @ [a]"] obtain rest where
      "split_aux [c] (cur @ [a]) s = ((cur @ [a]) @ takeWhile (\<lambda>x. x \<noteq> c) s) # rest" ..
    with False show ?thesis by auto
  qed
qed

lemma split_single_first: "at_index (split s [c]) 0 = Some (takeWhile (\<lambda>x. x \<noteq> c) s)"
  using split_aux_single[of c "[]" s] by (auto simp: split_def at_index_def)

lemma definitionOf_numDef:
  assumes "definitionOf res def (Located ps (Tag a cs) ns) = Inr def'"
    and "class_attr a = Some (str ''numDef'')"
  shows "\<exists>c rest d. cs = c # rest \<and> data c = Some d
           \<and> num def' = Some (takeWhile (\<lambda>x. x \<noteq> 46) (trim d))"
proof -
  have dot: "str ''.'' = [46]" by (simp add: str_def)
  from assms obtain c d where c: "firstChild (Tag a cs) = Inr c" and d: "stringData c = Inr d"
    and n: "def' = def\<lparr>num := at_index (split (trim d) (str ''.'')) 0\<rparr>"
    by (auto simp: definitionOf_def bind_eq_Inr)
  from c obtain rest where "cs = c # rest"
    by (auto simp: firstChild_def split: list.splits)
  moreover from d have "data c = Some d"
    by (auto simp: stringData_def split: option.splits)
  moreover from n have "num def' = Some (takeWhile (\<lambda>x. x \<noteq> 46) (trim d))"
    by (simp add: dot split_single_first)
  ultimately show ?thesis by blast
qed

lemma getDefinition_ex_division: "getDefinition ex_resolve ex_division = Inr ex_definition"
  by code_simp

text \<open>
  C4 (the \<open>num\<close> field of a definition whose numbering marker is present is a positive
  integer parsed from the marker's text up to the first full stop) fails on a definition
  block whose marker reads \<open>1.\<close>: the \<open>num\<close> field is the string \<open>1\<close>, not the
  number 1; the text up to the first full stop is taken and never converted.
\<close>

theorem getDefinition_num_is_string:
  "getDefinition ex_resolve ex_division = Inr ex_definition
   \<and> num ex_definition = Some (str ''1'')"
  using getDefinition_ex_division by (simp add: ex_definition_def)

section \<open>The text of a definition\<close>

lemma str_includes_single: "str_includes d [c] \<longleftrightarrow> c \<in> set d"
  by (induction d) auto

lemma numDef_neq_Renvois: "str ''numDef'' \<noteq> str ''Renvois''"
  by (simp add: str_def)

lemma definitionOf_Text:
  "definitionOf res def (Located ps (Text d) ns)
   = Inr (if 10 \<in> set d \<or> trim d = [] then def
          else def\<lparr>definition_text := definition_text def @ d\<rparr>)"
  by (simp add: definitionOf_def newline_def str_includes_single)

lemma definitionOf_text:
  assumes "definitionOf res def (Located ps x ns) = Inr def'"
  shows "definition_text def' = definition_text def @ appended x"
proof (cases x)
  case (Text d)
  with assms show ?thesis by (auto simp: definitionOf_Text)
next
  case (Comment d)
  with assms show ?thesis by (simp add: definitionOf_def)
next
  case (Script a cs)
  with assms show ?thesis by (simp add: definitionOf_def)
next
  case (Tag a cs)
  consider (num) "class_attr a = Some (str ''numDef'')"
    | (ren) "class_attr a \<noteq> Some (str ''numDef'')" "class_attr a = Some (str ''Renvois'')"
    | (ex) "class_attr a \<noteq> Some (str ''numDef'')" "class_attr a \<noteq> Some (str ''Renvois'')"
        "class_attr a = Some (str ''ExempleDefinition'')"
    | (syn) "class_attr a \<noteq> Some (str ''numDef'')" "class_attr a \<noteq> Some (str ''Renvois'')"
        "class_attr a \<noteq> Some (str ''ExempleDefinition'')" "class_attr a = Some (str ''Synonymes'')"
    | (other) "class_attr a \<noteq> Some (str ''numDef'')" "class_attr a \<noteq> Some (str ''Renvois'')"
        "class_attr a \<noteq> Some (str ''ExempleDefinition'')" "class_attr a \<noteq> Some (str ''Synonymes'')"
    by blast
  then show ?thesis
  proof cases
    case num
    then have "class_attr a \<noteq> Some (str ''Renvois'')" using numDef_neq_Renvois by simp
    with num assms Tag show ?thesis
      by (auto simp: definitionOf_def bind_eq_Inr)
  next
    case ren
    with assms Tag obtain c c' d where "firstChild (Tag a cs) = Inr c" "firstChild c = Inr c'"
      "stringData c' = Inr d" "def' = def\<lparr>definition_text := definition_text def @ trim d\<rparr>"
      by (auto simp: definitionOf_def bind_eq_Inr)
    with ren Tag show ?thesis
      by (auto simp: firstChild_def stringData_def split: option.splits list.splits)
  next
    case ex
    with assms Tag show ?thesis
      by (auto simp: definitionOf_def bind_eq_Inr)
  next
    case syn
    with assms Tag obtain os :: onyms where
      "(case type os of
          type_synonyms \<Rightarrow> Inr (def\<lparr>synonyms := onyms.list os\<rparr>)
        | type_antonyms \<Rightarrow> Inr (def\<lparr>antonyms := onyms.list os\<rparr>)) = (Inr def' :: js_error + definition_obj)"
      by (auto simp: definitionOf_def bind_eq_Inr)
    with syn Tag show ?thesis
      by (cases "type os") auto
  next
    case other
    with assms Tag show ?thesis
      by (simp add: definitionOf_def)
  qed
qed

lemma forEach_definitionOf_text:
  "forEach (definitionOf res) (locate ps cs) def = Inr def' \<Longrightarrow>
     definition_text def' = definition_text def @ concat (map appended cs)"
proof (induction cs arbitrary: ps def)
  case Nil
  then show ?case by simp
next
  case (Cons x xs)
  from Cons.prems obtain def1 where s: "definitionOf res def (Located ps x xs) = Inr def1"
    and r: "forEach (definitionOf res) (locate (x # ps) xs) def1 = Inr def'"
    by (auto simp: bind_eq_Inr)
  from Cons.IH[OF r] definitionOf_text[OF s] show ?case by simp
qed

lemma wordsOf_foldl: "foldl wordsOf acc cs = acc @ concat (map spelled cs)"
proof (induction cs arbitrary: acc)
  case Nil
  then show ?case by simp
next
  case (Cons x xs)
  then show ?case
    by (cases x) (simp_all add: newline_def str_includes_single)
qed

text \<open>
  C9 (as amended). In a definition container, a text node is skipped when it contains a line
  feed anywhere or is empty or whitespace-only, and every other text node is appended
  verbatim: the definition text is the concatenation, in document order, of what each child
  contributes, with the first no-break-space-and-colon removed, trimmed. In a spelling header,
  a text node is skipped when it contains a line feed anywhere, and every other text node
  contributes its trimmed text split on comma-space.
\<close>

theorem getDefinition_text:
  assumes "getDefinition res defContent = Inr def" and "children defContent = Some cs"
  shows "definition_text def = trim (replace (concat (map appended cs)) nbspColon [])
         \<and> foldl wordsOf [] hs = concat (map spelled hs)"
proof -
  from assms obtain def' where f: "forEach (definitionOf res) (locate [] cs)
        \<lparr>num = None, definition_text = [], examples = [], synonyms = [], antonyms = []\<rparr> = Inr def'"
    and d: "def = def'\<lparr>definition_text := trim (replace (definition_text def') nbspColon [])\<rparr>"
    by (auto simp: getDefinition_def childNodes_def bind_eq_Inr)
  from forEach_definitionOf_text[OF f] d show ?thesis by (simp add: wordsOf_foldl)
qed

lemma appended_ex_division:
  "trim (replace (concat (map appended ex_division_children)) nbspColon [])
   = str ''Etre dans le sommeil''"
  by code_simp

lemma spelled_ex_heading: "concat (map spelled ex_heading_children) = [str ''dormeur'', str ''dormeuse'']"
  by code_simp

theorem getDefinition_text_witness:
  "getDefinition ex_resolve ex_division = Inr ex_definition
   \<and> children ex_division = Some ex_division_children
   \<and> definition_text ex_definition = str ''Etre dans le sommeil''
   \<and> trim (replace (concat (map appended ex_division_children)) nbspColon [])
       = str ''Etre dans le sommeil''
   \<and> foldl wordsOf [] ex_heading_children = [str ''dormeur'', str ''dormeuse'']"
  using getDefinition_text [OF getDefinition_ex_division, of ex_division_children ex_heading_children]
    getDefinition_ex_division
  by (simp add: ex_division_def ex_elem_def appended_ex_division spelled_ex_heading)

text \<open>
  C9 as stated fails on a text node that ends with a line feed: it is neither a lone line
  feed nor empty nor whitespace-only, and it is skipped, in a definition container and in a
  spelling header alike.
\<close>

theorem getDefinition_newline_counterexample:
  "getDefinition ex_resolve ex_wrapped_division
     = Inr \<lparr>num = None, definition_text = [], examples = [], synonyms = [], antonyms = []\<rparr>
   \<and> ex_wrapped_text \<noteq> newline \<and> ex_wrapped_text \<noteq> [] \<and> trim ex_wrapped_text \<noteq> []
   \<and> trim ex_wrapped_text = str ''Etre dans le sommeil.''
   \<and> foldl wordsOf [] [Text ex_wrapped_text] = []"
  by code_simp

end
